theory Spec2Isabelle
  imports Complex_Main
begin

section \<open>Dates\<close>

text \<open>
  A JavaScript \<open>Date\<close> is its \<open>getTime()\<close> value: milliseconds since the epoch, an
  \<^typ>\<open>int\<close>. The server's local time zone is taken to be UTC (no offset, no daylight
  saving), so that local midnight is a multiple of one day and \<open>setDate\<close> moves by whole
  days of 86400000 ms.
\<close>

type_synonym jsdate = int

definition msPerDay :: int where
  "msPerDay = 86400000"

text \<open>\<open>d.setHours(0, 0, 0, 0)\<close>: the midnight that starts the day of \<open>d\<close>.\<close>

definition setHours0 :: "jsdate \<Rightarrow> jsdate" where
  "setHours0 t = t - t mod msPerDay"

text \<open>\<open>d.setDate(d.getDate() - i)\<close>: the same time of day, \<open>i\<close> days earlier.\<close>

definition setDateMinus :: "jsdate \<Rightarrow> nat \<Rightarrow> jsdate" where
  "setDateMinus t i = t - int i * msPerDay"

text \<open>
  Test data: \<open>jan2024 d h\<close> is \<open>h\<close> o'clock UTC on 2024-01-\<open>d\<close>. Midnight of 2024-01-01 is
  1704067200000 ms, which is day 19723 after the epoch.
\<close>

definition jan2024 :: "int \<Rightarrow> int \<Rightarrow> jsdate" where
  "jan2024 d h = (19722 + d) * msPerDay + h * 3600000"


section \<open>The document-database variant: the StudySession model\<close>

text \<open>
  The schema of \<open>studySessionSchema\<close>. \<open>doc_id\<close> is Mongo's \<open>_id\<close> and \<open>notes_m\<close> is \<open>notes\<close>, which has no default
  and \<open>quality\<close> defaults to null, so both are optional.
\<close>

record studySession =
  doc_id :: nat
  user :: nat
  date :: jsdate
  duration :: int
  subject :: string
  notes_m :: "string option"
  tags :: "string list"
  isCompleted :: bool
  quality :: "int option"
  createdAt :: jsdate
  updatedAt :: jsdate

record streak =
  currentStreak :: nat
  maxStreak :: nat

text \<open>
  \<open>this.find({ user: userId }).sort({ date: -1 }).select('date').lean()\<close>:
  the dates of the user's sessions, most recent first.
\<close>

definition findDatesDesc :: "studySession list \<Rightarrow> nat \<Rightarrow> jsdate list" where
  "findDatesDesc coll userId =
     map date (rev (sort_key date (filter (\<lambda>s. user s = userId) coll)))"

text \<open>
  \<open>sessions.some(session => ...)\<close> of \<open>getUserStreak\<close>: is a session on today's day?
\<close>

definition hasSessionToday :: "jsdate \<Rightarrow> jsdate list \<Rightarrow> bool" where
  "hasSessionToday now sessions =
     list_ex (\<lambda>d. setHours0 d = setHours0 now) sessions"

text \<open>
  The variable \<open>currentDate\<close> after the \<open>if (!hasSessionToday)\<close> statement: now, or
  one day before now.
\<close>

definition currentDate :: "jsdate \<Rightarrow> jsdate list \<Rightarrow> jsdate" where
  "currentDate now sessions =
     (if \<not> hasSessionToday now sessions then setDateMinus now 1 else now)"

text \<open>\<open>expectedDate\<close> of iteration \<open>i\<close>.\<close>

definition expectedDate :: "jsdate \<Rightarrow> nat \<Rightarrow> jsdate" where
  "expectedDate cd i = setHours0 (setDateMinus cd i)"

text \<open>
  The \<open>for\<close> loop of \<open>getUserStreak\<close>. The list is what remains of \<open>sessions\<close> from
  index \<open>i\<close> on; the state is \<open>(currentStreak, maxStreak, tempStreak)\<close>.
\<close>

fun streakLoop :: "jsdate \<Rightarrow> jsdate list \<Rightarrow> nat \<Rightarrow> nat \<times> nat \<times> nat \<Rightarrow> nat \<times> nat \<times> nat" where
  "streakLoop cd [] i (cur, mx, tmp) = (cur, mx, tmp)"
| "streakLoop cd (d # ds) i (cur, mx, tmp) =
     (if setHours0 d = expectedDate cd i
      then streakLoop cd ds (i + 1) (if i = 0 then tmp + 1 else cur, mx, tmp + 1)
      else streakLoop cd ds (i + 1) (cur, max mx tmp, 0))"

text \<open>
  \<open>getUserStreak(userId)\<close>, with the clock reading \<open>now\<close> of \<open>new Date()\<close> and the
  collection as parameters. The two readings of the clock, for \<open>currentDate\<close> and for
  \<open>today\<close>, are the same instant.
\<close>

definition getUserStreak :: "jsdate \<Rightarrow> studySession list \<Rightarrow> nat \<Rightarrow> streak" where
  "getUserStreak now coll userId =
     (let sessions = findDatesDesc coll userId in
      if length sessions = 0 then \<lparr>currentStreak = 0, maxStreak = 0\<rparr>
      else
        (case streakLoop (currentDate now sessions) sessions 0 (0, 0, 0) of
           (cur, mx, tmp) \<Rightarrow> \<lparr>currentStreak = cur, maxStreak = max mx tmp\<rparr>))"

text \<open>Test data: a session document of user \<open>u\<close> with the given id, date and duration.\<close>

definition mkSession :: "nat \<Rightarrow> nat \<Rightarrow> jsdate \<Rightarrow> int \<Rightarrow> studySession" where
  "mkSession i u d m =
     \<lparr>doc_id = i, user = u, date = d, duration = m, subject = ''General Study'',
      notes_m = None, tags = [], isCompleted = True, quality = None,
      createdAt = d, updatedAt = d\<rparr>"


section \<open>The document-database variant: statistics\<close>

text \<open>
  The result of the \<open>$group\<close> stage of \<open>getUserStats\<close>. \<open>$avg\<close> is the exact mean, a
  rational here (the double of the database is taken to be exact); it is null when no
  document has a numeric value, which can only happen for \<open>quality\<close>.
\<close>

record aggStats =
  totalSessions :: nat
  totalDuration :: int
  averageDuration :: rat
  averageQuality :: "rat option"

text \<open>
  \<open>matchStage\<close>: the owner, and the date range when both \<open>startDate\<close> and \<open>endDate\<close> are
  given. A query parameter is \<open>None\<close> when it is absent or empty, and otherwise the
  date that \<open>new Date(...)\<close> reads from it.
\<close>

definition matchStage :: "nat \<Rightarrow> jsdate option \<Rightarrow> jsdate option \<Rightarrow> studySession \<Rightarrow> bool" where
  "matchStage userId startDate endDate s =
     (user s = userId \<and>
      (case startDate of
         None \<Rightarrow> True
       | Some sd \<Rightarrow> (case endDate of None \<Rightarrow> True | Some ed \<Rightarrow> sd \<le> date s \<and> date s \<le> ed)))"

text \<open>\<open>$avg\<close> over the values that are numbers.\<close>

definition avg :: "int list \<Rightarrow> rat option" where
  "avg xs = (if xs = [] then None else Some (of_int (sum_list xs) / of_int (int (length xs))))"

fun numbers :: "int option list \<Rightarrow> int list" where
  "numbers [] = []"
| "numbers (None # qs) = numbers qs"
| "numbers (Some q # qs) = q # numbers qs"

text \<open>\<open>getUserStats(userId, startDate, endDate)\<close>: \<open>stats[0]\<close>, or the all-zero default.\<close>

definition getUserStats :: "studySession list \<Rightarrow> nat \<Rightarrow> jsdate option \<Rightarrow> jsdate option \<Rightarrow> aggStats" where
  "getUserStats coll userId startDate endDate =
     (let matched = filter (matchStage userId startDate endDate) coll in
      if matched = []
      then \<lparr>totalSessions = 0, totalDuration = 0, averageDuration = 0, averageQuality = Some 0\<rparr>
      else \<lparr>totalSessions = length matched,
            totalDuration = sum_list (map duration matched),
            averageDuration =
              of_int (sum_list (map duration matched)) / of_int (int (length matched)),
            averageQuality = avg (numbers (map quality matched))\<rparr>)"

text \<open>
  The calendar map of the controller: minutes per day, keyed by the day. The key of
  the source is the string \<open>YYYY-MM-DD\<close> of \<open>toISOString()\<close>; here it is the midnight
  that starts that UTC day. Keys stay in the order of their first insertion.
\<close>

fun addMinutes :: "jsdate \<Rightarrow> int \<Rightarrow> (jsdate \<times> int) list \<Rightarrow> (jsdate \<times> int) list" where
  "addMinutes k m [] = [(k, 0 + m)]"
| "addMinutes k m ((k', v) # kvs) =
     (if k' = k then (k', v + m) # kvs else (k', v) # addMinutes k m kvs)"

definition sessionsByDate :: "studySession list \<Rightarrow> (jsdate \<times> int) list" where
  "sessionsByDate recentSessions =
     foldl (\<lambda>acc s. addMinutes (setHours0 (date s)) (duration s) acc) [] recentSessions"

record statsReply =
  stats :: aggStats
  streakPart :: streak
  calendarData :: "(jsdate \<times> int) list"

text \<open>
  The controller \<open>getUserStats\<close>. The reply's \<open>stats\<close> object spreads the aggregate and
  the streak; they are kept as two parts here.
\<close>

definition getUserStats_controller ::
    "jsdate \<Rightarrow> studySession list \<Rightarrow> nat \<Rightarrow> jsdate option \<Rightarrow> jsdate option \<Rightarrow> statsReply" where
  "getUserStats_controller now coll req_user startDate endDate =
     (let stats = getUserStats coll req_user startDate endDate;
          streak = getUserStreak now coll req_user;
          recentSessions =
            filter (\<lambda>s. user s = req_user \<and> now - 90 * 24 * 60 * 60 * 1000 \<le> date s) coll
      in \<lparr>stats = stats, streakPart = streak, calendarData = sessionsByDate recentSessions\<rparr>)"


section \<open>The document-database variant: create, update, delete\<close>













section \<open>The flat-file variant: the database module\<close>

text \<open>
  The JSON file holds \<open>{ users, studySessions }\<close>. Reading and writing the file are taken
  to succeed; the file's content is the state passed through every operation. Field
  names that clash carry a suffix: \<open>_u\<close> for a user, \<open>_f\<close> for a session.
  \<open>updatedAt\<close> is absent until the first update.
\<close>

record user =
  id_u :: string
  name_u :: string
  email_u :: string
  password_u :: string
  token_u :: string
  createdAt_u :: string
  updatedAt_u :: "string option"

record session =
  id_f :: string
  userId :: string
  date_f :: string
  duration_f :: int
  notes_f :: string
  createdAt_f :: string
  updatedAt_f :: "string option"

record db =
  users :: "user list"
  studySessions :: "session list"

text \<open>
  An \<open>updates\<close> object: for each field of a session, the new value if the object has
  that key.
\<close>

record updates =
  u_id :: "string option"
  u_userId :: "string option"
  u_date :: "string option"
  u_duration :: "int option"
  u_notes :: "string option"
  u_createdAt :: "string option"
  u_updatedAt :: "string option"

text \<open>The empty object \<open>{}\<close>.\<close>

definition emptyUpdates :: updates where
  "emptyUpdates =
     \<lparr>u_id = None, u_userId = None, u_date = None, u_duration = None, u_notes = None,
      u_createdAt = None, u_updatedAt = None\<rparr>"

text \<open>\<open>Array.prototype.findIndex\<close>, with \<open>None\<close> for \<open>-1\<close>.\<close>

fun findIndex :: "('a \<Rightarrow> bool) \<Rightarrow> 'a list \<Rightarrow> nat option" where
  "findIndex P [] = None"
| "findIndex P (x # xs) = (if P x then Some 0 else map_option Suc (findIndex P xs))"

definition getByUserId :: "db \<Rightarrow> string \<Rightarrow> session list" where
  "getByUserId data uid = filter (\<lambda>session. userId session = uid) (studySessions data)"



text \<open>
  The object \<open>{ ...session, ...updates, updatedAt: nowIso }\<close>: a key of \<open>updates\<close> wins
  over the session's, and \<open>updatedAt\<close> is set last.
\<close>

definition spread :: "session \<Rightarrow> updates \<Rightarrow> string \<Rightarrow> session" where
  "spread s u nowIso =
     \<lparr>id_f = (case u_id u of None \<Rightarrow> id_f s | Some v \<Rightarrow> v),
      userId = (case u_userId u of None \<Rightarrow> userId s | Some v \<Rightarrow> v),
      date_f = (case u_date u of None \<Rightarrow> date_f s | Some v \<Rightarrow> v),
      duration_f = (case u_duration u of None \<Rightarrow> duration_f s | Some v \<Rightarrow> v),
      notes_f = (case u_notes u of None \<Rightarrow> notes_f s | Some v \<Rightarrow> v),
      createdAt_f = (case u_createdAt u of None \<Rightarrow> createdAt_f s | Some v \<Rightarrow> v),
      updatedAt_f = Some nowIso\<rparr>"

text \<open>\<open>studySessions.update(id, updates)\<close>: null and no write when the id is not found.\<close>

definition update :: "string \<Rightarrow> string \<Rightarrow> updates \<Rightarrow> db \<Rightarrow> session option \<times> db" where
  "update nowIso sid upd data =
     (case findIndex (\<lambda>session. id_f session = sid) (studySessions data) of
        None \<Rightarrow> (None, data)
      | Some sessionIndex \<Rightarrow>
          (let s' = spread (studySessions data ! sessionIndex) upd nowIso
           in (Some s', data\<lparr>studySessions := (studySessions data)[sessionIndex := s']\<rparr>)))"



section \<open>The flat-file variant: the handlers of server.js\<close>

text \<open>
  The request body of POST and PUT: \<open>None\<close> is \<open>undefined\<close>. A body is taken to be
  well typed: \<open>date\<close> and \<open>notes\<close> are strings and \<open>duration\<close> is an integer number, on
  which \<open>parseInt\<close> is the identity. A string is truthy unless empty, a number unless 0.
\<close>

record reqBody =
  req_date :: "string option"
  req_duration :: "int option"
  req_notes :: "string option"

definition truthyString :: "string option \<Rightarrow> bool" where
  "truthyString v = (case v of None \<Rightarrow> False | Some t \<Rightarrow> t \<noteq> [])"

definition truthyNumber :: "int option \<Rightarrow> bool" where
  "truthyNumber v = (case v of None \<Rightarrow> False | Some n \<Rightarrow> n \<noteq> 0)"


text \<open>The \<open>updates\<close> object that the PUT handler builds from the body.\<close>

definition put_updates :: "reqBody \<Rightarrow> updates" where
  "put_updates body =
     emptyUpdates
       \<lparr>u_date := (if truthyString (req_date body) then req_date body else None),
        u_duration := (if truthyNumber (req_duration body) then req_duration body else None),
        u_notes := (if req_notes body \<noteq> None then req_notes body else None)\<rparr>"



text \<open>
  \<open>Math.round\<close> on the quotient, which is taken to be exact: the nearest integer, a
  tie going up.
\<close>

definition Math_round :: "rat \<Rightarrow> int" where
  "Math_round x = \<lfloor>x + 1 / 2\<rfloor>"

record simpleStats =
  totalSessions_f :: nat
  totalDuration_f :: int
  averageDuration_f :: int

text \<open>\<open>app.get('/api/study-sessions/stats')\<close>: the \<open>data\<close> of the reply.\<close>

definition get_stats :: "user \<Rightarrow> db \<Rightarrow> simpleStats" where
  "get_stats req_user data =
     (let userSessions = getByUserId data (id_u req_user);
          totalSessions = length userSessions;
          totalDuration = foldl (\<lambda>sum session. sum + duration_f session) 0 userSessions;
          averageDuration =
            (if totalSessions > 0
             then Math_round (of_int totalDuration / of_int (int totalSessions)) else 0)
      in \<lparr>totalSessions_f = totalSessions, totalDuration_f = totalDuration,
          averageDuration_f = averageDuration\<rparr>)"

text \<open>Test data for the flat file.\<close>

definition mkUser :: "string \<Rightarrow> user" where
  "mkUser i =
     \<lparr>id_u = i, name_u = ''N'', email_u = ''e'', password_u = ''p'', token_u = ''t'',
      createdAt_u = ''c'', updatedAt_u = None\<rparr>"

definition mkFlat :: "string \<Rightarrow> string \<Rightarrow> string \<Rightarrow> int \<Rightarrow> session" where
  "mkFlat i u d m =
     \<lparr>id_f = i, userId = u, date_f = d, duration_f = m, notes_f = [],
      createdAt_f = ''c'', updatedAt_f = None\<rparr>"


section \<open>Notions of the specification\<close>


text \<open>The distinct calendar days on which the user has a session.\<close>

definition distinctDays :: "studySession list \<Rightarrow> nat \<Rightarrow> jsdate list" where
  "distinctDays coll uid =
     remdups (map (\<lambda>s. setHours0 (date s)) (filter (\<lambda>s. user s = uid) coll))"

text \<open>
  The specification's \<open>computeStreak\<close>, in its words: the distinct days, most recent
  first; \<open>currentStreak\<close> is the length of the unbroken run of consecutive days that
  starts at the anchor (today if it has a session, else yesterday); \<open>maxStreak\<close> is the
  length of the longest run of consecutive days anywhere in the list.
\<close>

definition spec_sortedDays :: "studySession list \<Rightarrow> nat \<Rightarrow> jsdate list" where
  "spec_sortedDays coll uid = rev (sort (distinctDays coll uid))"

fun spec_prefixRun :: "jsdate \<Rightarrow> jsdate list \<Rightarrow> nat" where
  "spec_prefixRun e [] = 0"
| "spec_prefixRun e (d # ds) = (if d = e then 1 + spec_prefixRun (e - msPerDay) ds else 0)"

definition spec_currentStreak :: "jsdate \<Rightarrow> studySession list \<Rightarrow> nat \<Rightarrow> nat" where
  "spec_currentStreak now coll uid =
     spec_prefixRun
       (if setHours0 now \<in> set (spec_sortedDays coll uid) then setHours0 now
        else setHours0 now - msPerDay)
       (spec_sortedDays coll uid)"

fun spec_longestRun :: "jsdate \<Rightarrow> nat \<Rightarrow> nat \<Rightarrow> jsdate list \<Rightarrow> nat" where
  "spec_longestRun prev run best [] = max best run"
| "spec_longestRun prev run best (d # ds) =
     (if d = prev - msPerDay then spec_longestRun d (run + 1) best ds
      else spec_longestRun d 1 (max best run) ds)"

definition spec_maxStreak :: "studySession list \<Rightarrow> nat \<Rightarrow> nat" where
  "spec_maxStreak coll uid =
     (case spec_sortedDays coll uid of [] \<Rightarrow> 0 | d # ds \<Rightarrow> spec_longestRun d 1 0 ds)"




text \<open>
  Test data: a flat file and a collection with one session of user 7 and one of
  user 8, and request bodies.
\<close>

definition flatData :: db where
  "flatData =
     \<lparr>users = [mkUser ''7'', mkUser ''8''],
      studySessions = [mkFlat ''a'' ''7'' ''2024-01-01'' 30, mkFlat ''b'' ''8'' ''2024-01-01'' 45]\<rparr>"




definition notesBody :: reqBody where
  "notesBody = \<lparr>req_date = None, req_duration = None, req_notes = Some ''read''\<rparr>"

definition flatData' :: db where
  "flatData' =
     \<lparr>users = [mkUser ''7'', mkUser ''8''],
      studySessions =
        [(mkFlat ''a'' ''7'' ''2024-01-01'' 30)\<lparr>notes_f := ''read'', updatedAt_f := Some ''t1''\<rparr>,
         mkFlat ''b'' ''8'' ''2024-01-01'' 45]\<rparr>"


section \<open>Streak: the loop invariant\<close>

lemma streakLoop_cur_le:
  "streakLoop cd ds i (cur, mx, tmp) = (cur', mx', tmp') \<Longrightarrow>
   cur \<le> max mx tmp \<Longrightarrow> cur' \<le> max mx' tmp'"
proof (induction ds arbitrary: i cur mx tmp)
  case Nil
  then show ?case by simp
next
  case (Cons d ds)
  show ?case
  proof (cases "setHours0 d = expectedDate cd i")
    case True
    with Cons.prems(1)
    have "streakLoop cd ds (i + 1) (if i = 0 then tmp + 1 else cur, mx, tmp + 1) = (cur', mx', tmp')"
      by simp
    moreover from Cons.prems(2) have "(if i = 0 then tmp + 1 else cur) \<le> max mx (tmp + 1)"
      by auto
    ultimately show ?thesis by (rule Cons.IH)
  next
    case False
    with Cons.prems(1)
    have "streakLoop cd ds (i + 1) (cur, max mx tmp, 0) = (cur', mx', tmp')"
      by simp
    moreover from Cons.prems(2) have "cur \<le> max (max mx tmp) 0"
      by simp
    ultimately show ?thesis by (rule Cons.IH)
  qed
qed

text \<open>
  C7. For every collection, user and clock reading, the pair returned by
  \<open>getUserStreak\<close> has \<open>maxStreak >= currentStreak\<close>.
\<close>

theorem C7_maxStreak_ge_currentStreak:
  "currentStreak (getUserStreak now coll uid) \<le> maxStreak (getUserStreak now coll uid)"
proof -
  obtain cur mx tmp where
    r: "streakLoop (currentDate now (findDatesDesc coll uid)) (findDatesDesc coll uid) 0 (0, 0, 0)
        = (cur, mx, tmp)"
    using prod_cases3 by blast
  from r have "cur \<le> max mx tmp"
    by (rule streakLoop_cur_le) simp
  with r show ?thesis
    by (simp add: getUserStreak_def Let_def)
qed


section \<open>Streak: what the loop returns\<close>

text \<open>
  The anchor: the day of \<open>currentDate\<close> is today when a session falls on today, and
  yesterday otherwise.
\<close>

lemma setHours0_currentDate:
  "setHours0 (currentDate now sessions) =
     (if hasSessionToday now sessions then setHours0 now else setHours0 now - msPerDay)"
  by (simp add: currentDate_def setDateMinus_def setHours0_def)

text \<open>
  \<open>currentStreak\<close> is assigned in iteration 0 only, where \<open>tempStreak\<close> has just become
  1, so it is 0 or 1.
\<close>

lemma streakLoop_cur_le_1:
  "streakLoop cd ds i (cur, mx, tmp) = (cur', mx', tmp') \<Longrightarrow>
   cur \<le> 1 \<Longrightarrow> (i = 0 \<Longrightarrow> tmp = 0) \<Longrightarrow> cur' \<le> 1"
proof (induction ds arbitrary: i cur mx tmp)
  case Nil
  then show ?case by simp
next
  case (Cons d ds)
  show ?case
  proof (cases "setHours0 d = expectedDate cd i")
    case True
    with Cons.prems(1)
    have "streakLoop cd ds (i + 1) (if i = 0 then tmp + 1 else cur, mx, tmp + 1) = (cur', mx', tmp')"
      by simp
    moreover from Cons.prems(2,3) have "(if i = 0 then tmp + 1 else cur) \<le> 1"
      by auto
    ultimately show ?thesis by (rule Cons.IH) simp
  next
    case False
    with Cons.prems(1)
    have "streakLoop cd ds (i + 1) (cur, max mx tmp, 0) = (cur', mx', tmp')"
      by simp
    then show ?thesis using Cons.prems(2) by (rule Cons.IH) simp
  qed
qed

lemma currentStreak_le_1: "currentStreak (getUserStreak now coll uid) \<le> 1"
proof -
  obtain cur mx tmp where
    r: "streakLoop (currentDate now (findDatesDesc coll uid)) (findDatesDesc coll uid) 0 (0, 0, 0)
        = (cur, mx, tmp)"
    using prod_cases3 by blast
  from r have "cur \<le> 1"
    by (rule streakLoop_cur_le_1) simp_all
  with r show ?thesis
    by (simp add: getUserStreak_def Let_def)
qed

text \<open>
  C1. Sessions on 2024-01-01, 01-02 and 01-03, asked on 01-03: an unbroken run of
  three days from the anchor. The claim expects \<open>currentStreak = 3\<close> and
  \<open>maxStreak = 3\<close>, and 3 is the length of the run; the code returns
  \<open>currentStreak = 1\<close>.
\<close>

theorem C1_three_days_in_a_row:
  "getUserStreak (jan2024 3 18)
     [mkSession 1 7 (jan2024 1 9) 30, mkSession 2 7 (jan2024 2 10) 30,
      mkSession 3 7 (jan2024 3 8) 30] 7
   = \<lparr>currentStreak = 1, maxStreak = 3\<rparr>
   \<and> spec_currentStreak (jan2024 3 18)
     [mkSession 1 7 (jan2024 1 9) 30, mkSession 2 7 (jan2024 2 10) 30,
      mkSession 3 7 (jan2024 3 8) 30] 7 = 3"
  by code_simp

text \<open>
  C2. Sessions on 2024-01-01, 01-02 and 01-05, asked on 01-05. The claim expects
  \<open>maxStreak = 2\<close>, the longest run of days, 01-01 and 01-02 behind the gap; the
  code returns \<open>maxStreak = 1\<close>, since after the gap the expected date stays
  \<open>anchor - i\<close>.
\<close>

theorem C2_run_behind_a_gap:
  "getUserStreak (jan2024 5 18)
     [mkSession 1 7 (jan2024 1 9) 30, mkSession 2 7 (jan2024 2 10) 30,
      mkSession 3 7 (jan2024 5 8) 30] 7
   = \<lparr>currentStreak = 1, maxStreak = 1\<rparr>
   \<and> spec_maxStreak
     [mkSession 1 7 (jan2024 1 9) 30, mkSession 2 7 (jan2024 2 10) 30,
      mkSession 3 7 (jan2024 5 8) 30] 7 = 2"
  by code_simp

text \<open>
  C4. Sessions on each of 2024-01-01 to 01-05, asked on 01-06 before any session of
  that day: the anchor falls back to 01-05, as the claim says, and the five days
  match; the claim expects \<open>currentStreak = 5\<close>, the length of the run, and the
  code returns 1 (and \<open>maxStreak = 5\<close>).
\<close>

theorem C4_anchor_yesterday:
  "currentDate (jan2024 6 7)
     (findDatesDesc
        [mkSession 1 7 (jan2024 1 9) 30, mkSession 2 7 (jan2024 2 10) 30,
         mkSession 3 7 (jan2024 3 8) 30, mkSession 4 7 (jan2024 4 20) 30,
         mkSession 5 7 (jan2024 5 8) 30] 7) = jan2024 5 7
   \<and> getUserStreak (jan2024 6 7)
        [mkSession 1 7 (jan2024 1 9) 30, mkSession 2 7 (jan2024 2 10) 30,
         mkSession 3 7 (jan2024 3 8) 30, mkSession 4 7 (jan2024 4 20) 30,
         mkSession 5 7 (jan2024 5 8) 30] 7
      = \<lparr>currentStreak = 1, maxStreak = 5\<rparr>
   \<and> spec_currentStreak (jan2024 6 7)
        [mkSession 1 7 (jan2024 1 9) 30, mkSession 2 7 (jan2024 2 10) 30,
         mkSession 3 7 (jan2024 3 8) 30, mkSession 4 7 (jan2024 4 20) 30,
         mkSession 5 7 (jan2024 5 8) 30] 7 = 5"
  by code_simp


section \<open>Streak: every calendar day matches at most once\<close>







section \<open>Totals and averages\<close>











section \<open>The empty session set, and the range filter\<close>

lemma sessionsByDate_Nil: "sessionsByDate [] = []"
  by (simp add: sessionsByDate_def)

text \<open>
  C5. When the user has no session, both variants return the all-zero result:
  the controller's aggregate is the default object, the streak is 0 and 0, and the
  flat-file totals and average are 0. Every function of the model is a definition or
  a structural recursion over the list of sessions, with no error branch: the
  engine returns on every input.
\<close>

theorem C5_empty:
  assumes "filter (\<lambda>s. user s = uid) coll = []"
    and "getByUserId data (id_u req_user) = []"
  shows "getUserStats_controller now coll uid startDate endDate
         = \<lparr>stats = \<lparr>totalSessions = 0, totalDuration = 0, averageDuration = 0,
                      averageQuality = Some 0\<rparr>,
            streakPart = \<lparr>currentStreak = 0, maxStreak = 0\<rparr>,
            calendarData = []\<rparr>
       \<and> get_stats req_user data
         = \<lparr>totalSessions_f = 0, totalDuration_f = 0, averageDuration_f = 0\<rparr>"
proof -
  have m: "filter (matchStage uid startDate endDate) coll = []"
    using assms(1) by (auto simp: filter_empty_conv matchStage_def)
  have r: "filter (\<lambda>s. user s = uid \<and> now - 90 * 24 * 60 * 60 * 1000 \<le> date s) coll = []"
    using assms(1) by (auto simp: filter_empty_conv)
  have d: "findDatesDesc coll uid = []"
    using assms(1) by (simp add: findDatesDesc_def)
  have "getUserStats coll uid startDate endDate
        = \<lparr>totalSessions = 0, totalDuration = 0, averageDuration = 0, averageQuality = Some 0\<rparr>"
    using m by (simp add: getUserStats_def)
  moreover have "getUserStreak now coll uid = \<lparr>currentStreak = 0, maxStreak = 0\<rparr>"
    using d by (simp add: getUserStreak_def)
  moreover have "get_stats req_user data
         = \<lparr>totalSessions_f = 0, totalDuration_f = 0, averageDuration_f = 0\<rparr>"
    using assms(2) by (simp add: get_stats_def)
  ultimately show ?thesis
    using r by (simp add: getUserStats_controller_def sessionsByDate_Nil)
qed

theorem C5_empty_witness:
  "filter (\<lambda>s. user s = 7) [mkSession 1 8 (jan2024 1 9) 30] = []
   \<and> getByUserId \<lparr>users = [mkUser ''7''], studySessions = [mkFlat ''a'' ''8'' ''2024-01-01'' 30]\<rparr>
        (id_u (mkUser ''7'')) = []
   \<and> getUserStats_controller (jan2024 3 18) [mkSession 1 8 (jan2024 1 9) 30] 7 None None
         = \<lparr>stats = \<lparr>totalSessions = 0, totalDuration = 0, averageDuration = 0,
                      averageQuality = Some 0\<rparr>,
            streakPart = \<lparr>currentStreak = 0, maxStreak = 0\<rparr>,
            calendarData = []\<rparr>
   \<and> get_stats (mkUser ''7'')
        \<lparr>users = [mkUser ''7''], studySessions = [mkFlat ''a'' ''8'' ''2024-01-01'' 30]\<rparr>
         = \<lparr>totalSessions_f = 0, totalDuration_f = 0, averageDuration_f = 0\<rparr>"
proof -
  have a: "filter (\<lambda>s. user s = 7) [mkSession 1 8 (jan2024 1 9) 30] = []"
    by (simp add: mkSession_def)
  have b: "getByUserId \<lparr>users = [mkUser ''7''], studySessions = [mkFlat ''a'' ''8'' ''2024-01-01'' 30]\<rparr>
        (id_u (mkUser ''7'')) = []"
    by (simp add: getByUserId_def mkUser_def mkFlat_def)
  show ?thesis
    using a b C5_empty [OF a b, of "jan2024 3 18" None None] by simp
qed

text \<open>
  C8. The streak part of the controller's reply is the same for any two choices of
  \<open>startDate\<close> and \<open>endDate\<close> (absent or not): it is \<open>getUserStreak\<close> of the whole
  collection, which is called without them.
\<close>

theorem C8_streak_ignores_range:
  "streakPart (getUserStats_controller now coll req_user startDate endDate)
   = streakPart (getUserStats_controller now coll req_user startDate' endDate')
   \<and> streakPart (getUserStats_controller now coll req_user startDate endDate)
     = getUserStreak now coll req_user"
  by (simp add: getUserStats_controller_def Let_def)


section \<open>Ownership of update and delete\<close>

lemma findIndex_Some:
  "findIndex P xs = Some i \<Longrightarrow> i < length xs \<and> P (xs ! i) \<and> find P xs = Some (xs ! i)"
proof (induction xs arbitrary: i)
  case Nil
  then show ?case by simp
next
  case (Cons x xs)
  show ?case
  proof (cases "P x")
    case True
    with Cons.prems show ?thesis by simp
  next
    case False
    with Cons.prems obtain j where j: "findIndex P xs = Some j" "i = Suc j"
      by auto
    from Cons.IH [OF j(1)] False j(2) show ?thesis by simp
  qed
qed























section \<open>The frame of the flat-file update\<close>

text \<open>
  C10. When \<open>update\<close> finds the id at index \<open>i\<close>: the users are unchanged, every other
  session is unchanged, each field of the target that is not a key of \<open>updates\<close> is
  unchanged apart from \<open>updatedAt\<close>, which is the time of the update. The \<open>updates\<close> of
  the PUT handler hold \<open>date\<close>, \<open>duration\<close> and \<open>notes\<close> only, each only with the value
  the request provides.
\<close>

theorem C10_update_frame:
  assumes "findIndex (\<lambda>session. id_f session = sid) (studySessions data) = Some i"
    and "update nowIso sid upd data = (r, data')"
  shows
   "users data' = users data
  \<and> length (studySessions data') = length (studySessions data)
  \<and> (\<forall>j. j \<noteq> i \<longrightarrow> studySessions data' ! j = studySessions data ! j)
  \<and> r = Some (studySessions data' ! i)
  \<and> (u_id upd = None \<longrightarrow> id_f (studySessions data' ! i) = id_f (studySessions data ! i))
  \<and> (u_userId upd = None \<longrightarrow> userId (studySessions data' ! i) = userId (studySessions data ! i))
  \<and> (u_date upd = None \<longrightarrow> date_f (studySessions data' ! i) = date_f (studySessions data ! i))
  \<and> (u_duration upd = None \<longrightarrow>
        duration_f (studySessions data' ! i) = duration_f (studySessions data ! i))
  \<and> (u_notes upd = None \<longrightarrow> notes_f (studySessions data' ! i) = notes_f (studySessions data ! i))
  \<and> (u_createdAt upd = None \<longrightarrow>
        createdAt_f (studySessions data' ! i) = createdAt_f (studySessions data ! i))
  \<and> updatedAt_f (studySessions data' ! i) = Some nowIso
  \<and> (u_date (put_updates body) = None \<or> u_date (put_updates body) = req_date body)
  \<and> (u_duration (put_updates body) = None \<or> u_duration (put_updates body) = req_duration body)
  \<and> (u_notes (put_updates body) = None \<or> u_notes (put_updates body) = req_notes body)
  \<and> u_id (put_updates body) = None \<and> u_userId (put_updates body) = None
  \<and> u_createdAt (put_updates body) = None \<and> u_updatedAt (put_updates body) = None"
proof -
  from findIndex_Some [OF assms(1)] have lt: "i < length (studySessions data)"
    by simp
  from assms have r: "r = Some (spread (studySessions data ! i) upd nowIso)"
    and d: "data' = data\<lparr>studySessions :=
              (studySessions data)[i := spread (studySessions data ! i) upd nowIso]\<rparr>"
    by (simp_all add: update_def Let_def)
  have n: "studySessions data' ! i = spread (studySessions data ! i) upd nowIso"
    using lt d by simp
  have u: "users data' = users data"
    using d by simp
  have l: "length (studySessions data') = length (studySessions data)"
    using d by simp
  have o: "\<forall>j. j \<noteq> i \<longrightarrow> studySessions data' ! j = studySessions data ! j"
    using d by simp
  have r': "r = Some (studySessions data' ! i)"
    using r n by simp
  show ?thesis
    by (simp add: u l o r' n spread_def put_updates_def emptyUpdates_def)
qed

theorem C10_update_frame_witness:
  "findIndex (\<lambda>session. id_f session = ''a'') (studySessions flatData) = Some 0
   \<and> update ''t1'' ''a'' (put_updates notesBody) flatData
       = (Some ((mkFlat ''a'' ''7'' ''2024-01-01'' 30)\<lparr>notes_f := ''read'', updatedAt_f := Some ''t1''\<rparr>),
          flatData')
   \<and> u_id (put_updates notesBody) = None \<and> u_userId (put_updates notesBody) = None
   \<and> u_date (put_updates notesBody) = None \<and> u_duration (put_updates notesBody) = None
   \<and> u_createdAt (put_updates notesBody) = None
   \<and> users flatData' = users flatData
   \<and> (1::nat) \<noteq> 0 \<and> studySessions flatData' ! 1 = studySessions flatData ! 1
   \<and> id_f (studySessions flatData' ! 0) = id_f (studySessions flatData ! 0)
   \<and> userId (studySessions flatData' ! 0) = userId (studySessions flatData ! 0)
   \<and> date_f (studySessions flatData' ! 0) = date_f (studySessions flatData ! 0)
   \<and> duration_f (studySessions flatData' ! 0) = duration_f (studySessions flatData ! 0)
   \<and> createdAt_f (studySessions flatData' ! 0) = createdAt_f (studySessions flatData ! 0)
   \<and> updatedAt_f (studySessions flatData' ! 0) = Some ''t1''"
proof -
  have a: "findIndex (\<lambda>session. id_f session = ''a'') (studySessions flatData) = Some 0"
    by (simp add: flatData_def mkFlat_def)
  have b: "update ''t1'' ''a'' (put_updates notesBody) flatData
       = (Some ((mkFlat ''a'' ''7'' ''2024-01-01'' 30)\<lparr>notes_f := ''read'', updatedAt_f := Some ''t1''\<rparr>),
          flatData')"
    by (simp add: update_def flatData_def flatData'_def mkFlat_def spread_def put_updates_def
        emptyUpdates_def notesBody_def truthyString_def truthyNumber_def Let_def)
  have c: "u_id (put_updates notesBody) = None \<and> u_userId (put_updates notesBody) = None
   \<and> u_date (put_updates notesBody) = None \<and> u_duration (put_updates notesBody) = None
   \<and> u_createdAt (put_updates notesBody) = None"
    by (simp add: put_updates_def emptyUpdates_def notesBody_def truthyString_def truthyNumber_def)
  show ?thesis
    using a b c C10_update_frame [OF a b, of notesBody]
    by simp
qed


end
